theory Spec2Isabelle
  imports Complex_Main
begin

section \<open>Data model\<close>

text \<open>
  The sensors of \<^verbatim>\<open>library/sensors/sensors_custom.py\<close>,
  \<^verbatim>\<open>sensors_custom_plex.py\<close> and \<^verbatim>\<open>sensors_custom_proxmox.py\<close> are Python objects
  holding two dictionaries (\<^verbatim>\<open>_cache\<close>, \<^verbatim>\<open>_last\<close>), in the charting file a list
  (\<^verbatim>\<open>_hist\<close>), and the resolved configuration. One record models all of them:
  \<open>base_url\<close> is \<^verbatim>\<open>self.url\<close> of the Plex classes and \<^verbatim>\<open>self.api_base\<close> of the
  Proxmox classes, \<open>ttl\<close> is \<^verbatim>\<open>self._ttl\<close> respectively \<^verbatim>\<open>self.cache_ttl\<close>, and
  \<open>last_at\<close> is \<^verbatim>\<open>self._last\<close>. The classes without a history never touch \<open>hist\<close>.

  Python floats (cached values, \<^verbatim>\<open>time.time()\<close>) are modelled as real numbers: rounding,
  infinities and NaN are outside the model. The clock reading of a call is the parameter
  \<open>now\<close>. Output written with \<^verbatim>\<open>print\<close> is not modelled.
\<close>

datatype exn = AttributeError | TypeError | ValueError

record sensor =
  base_url :: string
  node :: string
  ttl :: int
  cache :: "string \<rightharpoonup> real"
  last_at :: "string \<rightharpoonup> real"
  hist :: "real list"

text \<open>The attributes \<^verbatim>\<open>__init__\<close> creates, for a resolved \<open>url\<close>, \<open>node\<close> and TTL.\<close>

definition new_sensor :: "string \<Rightarrow> string \<Rightarrow> int \<Rightarrow> sensor" where
  "new_sensor u nd t =
     \<lparr>base_url = u, node = nd, ttl = t, cache = Map.empty, last_at = Map.empty, hist = []\<rparr>"

section \<open>TTL cache\<close>

text \<open>\<^verbatim>\<open>self._last.get(key, 0)\<close>\<close>

definition last_get :: "sensor \<Rightarrow> string \<Rightarrow> real" where
  "last_get s key = (case last_at s key of None \<Rightarrow> 0 | Some t \<Rightarrow> t)"

text \<open>
  The guard \<^verbatim>\<open>key in self._cache and (now - self._last.get(key, 0)) < self._ttl\<close>,
  returning the value \<^verbatim>\<open>self._cache[key]\<close> that the hit branch reads.
\<close>

definition hit :: "sensor \<Rightarrow> string \<Rightarrow> real \<Rightarrow> real option" where
  "hit s key now =
     (case cache s key of
        None \<Rightarrow> None
      | Some c \<Rightarrow> if now - last_get s key < real_of_int (ttl s) then Some c else None)"

text \<open>The two assignments \<^verbatim>\<open>self._cache[key] = v; self._last[key] = now\<close>.\<close>

definition store :: "sensor \<Rightarrow> string \<Rightarrow> real \<Rightarrow> real \<Rightarrow> sensor" where
  "store s key v now = s\<lparr>cache := (cache s)(key \<mapsto> v), last_at := (last_at s)(key \<mapsto> now)\<rparr>"

text \<open>
  \<^verbatim>\<open>PlexBaseSensor._cached\<close> (both files) and \<^verbatim>\<open>ProxmoxBaseSensor._cached\<close> of
  \<^verbatim>\<open>sensors_custom.py\<close>, which differ only in the name of the TTL attribute. The compute
  function \<open>fn\<close> runs against the outside world \<open>w\<close> and either raises or returns a
  float; an exception leaves the method before the two assignments.
\<close>

definition cached ::
  "string \<Rightarrow> ('w \<Rightarrow> (exn + real) \<times> 'w) \<Rightarrow> real \<Rightarrow> sensor \<Rightarrow> 'w \<Rightarrow> (exn + real) \<times> sensor \<times> 'w" where
  "cached key fn now s w =
     (case hit s key now of
        Some c \<Rightarrow> (Inr c, s, w)
      | None \<Rightarrow>
          (case fn w of
             (Inl x, w') \<Rightarrow> (Inl x, s, w')
           | (Inr v, w') \<Rightarrow> (Inr v, store s key v now, w')))"

text \<open>
  \<^verbatim>\<open>ProxmoxBaseSensor._cached\<close> of \<^verbatim>\<open>sensors_custom_proxmox.py\<close>: a compute function
  that returns \<^verbatim>\<open>None\<close> leaves the entry alone and the method returns
  \<^verbatim>\<open>self._cache.get(key)\<close>, which is \<^verbatim>\<open>None\<close> when there is no entry.
\<close>

definition pmx_cached ::
  "string \<Rightarrow> ('w \<Rightarrow> (exn + real option) \<times> 'w) \<Rightarrow> real \<Rightarrow> sensor \<Rightarrow> 'w
     \<Rightarrow> (exn + real option) \<times> sensor \<times> 'w" where
  "pmx_cached key fn now s w =
     (case hit s key now of
        Some c \<Rightarrow> (Inr (Some c), s, w)
      | None \<Rightarrow>
          (case fn w of
             (Inl x, w') \<Rightarrow> (Inl x, s, w')
           | (Inr None, w') \<Rightarrow> (Inr (cache s key), s, w')
           | (Inr (Some v), w') \<Rightarrow> (Inr (Some v), store s key v now, w')))"

text \<open>
  Counting the invocations of a compute function: the world is paired with a counter that
  every run of the function increments.
\<close>

definition counting :: "('w \<Rightarrow> 'r \<times> 'w) \<Rightarrow> nat \<times> 'w \<Rightarrow> 'r \<times> (nat \<times> 'w)" where
  "counting fn nw = (case fn (snd nw) of (r, w') \<Rightarrow> (r, (Suc (fst nw), w')))"

section \<open>History buffer\<close>

text \<open>\<^verbatim>\<open>_push\<close>: append, then drop the head once the list is longer than 200.\<close>

definition push :: "sensor \<Rightarrow> real \<Rightarrow> sensor" where
  "push s v =
     (let h = hist s @ [v]
      in s\<lparr>hist := (if length h > 200 then tl h else h)\<rparr>)"

text \<open>\<^verbatim>\<open>last_values\<close>: the slice \<^verbatim>\<open>self._hist[-40:]\<close>, a new list.\<close>

definition last_values :: "sensor \<Rightarrow> real list" where
  "last_values s = drop (length (hist s) - 40) (hist s)"

text \<open>A sequence of pushes, in order.\<close>

fun pushes :: "sensor \<Rightarrow> real list \<Rightarrow> sensor" where
  "pushes s [] = s"
| "pushes s (v # vs) = pushes (push s v) vs"

text \<open>A polling loop: one call of a sensor method per clock reading, in order.\<close>

fun polls ::
  "(real \<Rightarrow> sensor \<Rightarrow> 'w \<Rightarrow> 'r \<times> sensor \<times> 'w) \<Rightarrow> real list \<Rightarrow> sensor \<Rightarrow> 'w \<Rightarrow> 'r list \<times> sensor \<times> 'w" where
  "polls f [] s w = ([], s, w)"
| "polls f (t # ts) s w =
     (case f t s w of
        (r, s', w') \<Rightarrow> (case polls f ts s' w' of (rs, s'', w'') \<Rightarrow> (r # rs, s'', w'')))"

section \<open>Transport\<close>

text \<open>
  A parsed JSON document as Python holds it; \<open>JNull\<close> is \<^verbatim>\<open>None\<close>. An object is the
  association list of a dictionary, so its keys are distinct.
\<close>

datatype json =
  JNull | JBool bool | JNum real | JStr string | JArr "json list" | JObj "(string \<times> json) list"

text \<open>
  What \<^verbatim>\<open>requests.get\<close> does with a URL: it raises (connection error, timeout, invalid
  URL), or it returns a response with a status code whose \<^verbatim>\<open>json()\<close> is a document or
  raises (\<open>None\<close>).
\<close>

datatype http_outcome = Raises | Response int "json option"

text \<open>
  The world outside the sensor: the answer of the network to the \<open>n\<close>-th request, the
  URLs handed to \<^verbatim>\<open>requests.get\<close> so far (oldest first), and Python's \<^verbatim>\<open>float\<close> on a
  string, which is not part of the repository (\<open>None\<close> where it raises
  \<^verbatim>\<open>ValueError\<close>). Headers, the timeout of 6 and \<^verbatim>\<open>verify\<close> are fixed for an instance
  and are not recorded.
\<close>

record world =
  respond :: "nat \<Rightarrow> string \<Rightarrow> http_outcome"
  sent :: "string list"
  str_float :: "string \<Rightarrow> real option"

definition requests_get :: "string \<Rightarrow> world \<Rightarrow> http_outcome \<times> world" where
  "requests_get u w = (respond w (length (sent w)) u, w\<lparr>sent := sent w @ [u]\<rparr>)"

text \<open>\<^verbatim>\<open>PlexBaseSensor._plex_get\<close>\<close>

definition plex_get :: "sensor \<Rightarrow> string \<Rightarrow> world \<Rightarrow> json \<times> world" where
  "plex_get s ep w =
     (if base_url s = [] then (JNull, w)
      else case requests_get (base_url s @ ep) w of
             (Raises, w') \<Rightarrow> (JNull, w')
           | (Response st body, w') \<Rightarrow>
               (if st = 200 then (case body of None \<Rightarrow> JNull | Some j \<Rightarrow> j) else JNull, w'))"

text \<open>
  \<^verbatim>\<open>ProxmoxBaseSensor._pmx_get\<close> (the same in both files): no test of \<^verbatim>\<open>self.api_base\<close>;
  \<^verbatim>\<open>r.json().get("data")\<close> raises inside the \<^verbatim>\<open>try\<close> when the document is not an
  object.
\<close>

definition pmx_get :: "sensor \<Rightarrow> string \<Rightarrow> world \<Rightarrow> json \<times> world" where
  "pmx_get s ep w =
     (case requests_get (base_url s @ ep) w of
        (Raises, w') \<Rightarrow> (JNull, w')
      | (Response st body, w') \<Rightarrow>
          (if st = 200
           then (case body of
                   Some (JObj kvs) \<Rightarrow> (case map_of kvs ''data'' of None \<Rightarrow> JNull | Some d \<Rightarrow> d)
                 | _ \<Rightarrow> JNull)
           else JNull, w'))"

section \<open>Python operations on payloads and numbers\<close>

fun truthy :: "json \<Rightarrow> bool" where
  "truthy JNull = False"
| "truthy (JBool b) = b"
| "truthy (JNum r) = (r \<noteq> 0)"
| "truthy (JStr t) = (t \<noteq> [])"
| "truthy (JArr xs) = (xs \<noteq> [])"
| "truthy (JObj kvs) = (kvs \<noteq> [])"

text \<open>\<^verbatim>\<open>a or b\<close>\<close>

definition py_or :: "json \<Rightarrow> json \<Rightarrow> json" where
  "py_or a b = (if truthy a then a else b)"

text \<open>\<^verbatim>\<open>j.get(k, d)\<close>: only a dictionary has the method.\<close>

fun dict_get :: "json \<Rightarrow> string \<Rightarrow> json \<Rightarrow> exn + json" where
  "dict_get (JObj kvs) k d = Inr (case map_of kvs k of None \<Rightarrow> d | Some v \<Rightarrow> v)"
| "dict_get _ k d = Inl AttributeError"

text \<open>\<^verbatim>\<open>float(x)\<close>\<close>

fun py_float :: "world \<Rightarrow> json \<Rightarrow> exn + real" where
  "py_float w (JNum r) = Inr r"
| "py_float w (JBool b) = Inr (if b then 1 else 0)"
| "py_float w (JStr t) = (case str_float w t of None \<Rightarrow> Inl ValueError | Some r \<Rightarrow> Inr r)"
| "py_float w _ = Inl TypeError"

text \<open>\<^verbatim>\<open>int(x)\<close> of a float truncates towards zero.\<close>

definition py_int :: "real \<Rightarrow> int" where
  "py_int x = (if 0 \<le> x then \<lfloor>x\<rfloor> else \<lceil>x\<rceil>)"

text \<open>\<^verbatim>\<open>a // b\<close> and \<^verbatim>\<open>a % b\<close> on floats, for a positive constant \<open>b\<close>.\<close>

definition floordiv :: "real \<Rightarrow> real \<Rightarrow> real" where
  "floordiv a b = of_int \<lfloor>a / b\<rfloor>"

definition py_mod :: "real \<Rightarrow> real \<Rightarrow> real" where
  "py_mod a b = a - b * of_int \<lfloor>a / b\<rfloor>"

text \<open>An integer in an f-string: decimal digits, with a minus sign when negative.\<close>

definition digit_char :: "nat \<Rightarrow> char" where
  "digit_char d = ''0123456789'' ! d"

fun show_nat :: "nat \<Rightarrow> string" where
  "show_nat n = (if n < 10 then [digit_char n] else show_nat (n div 10) @ [digit_char (n mod 10)])"

definition show_int :: "int \<Rightarrow> string" where
  "show_int i = (if i < 0 then CHR ''-'' # show_nat (nat (- i)) else show_nat (nat i))"

text \<open>\<^verbatim>\<open>self._cache.get(key, 0)\<close>\<close>

definition cache_get :: "sensor \<Rightarrow> string \<Rightarrow> real" where
  "cache_get s key = (case cache s key of None \<Rightarrow> 0 | Some v \<Rightarrow> v)"

section \<open>Sensors\<close>

subsection \<open>\<^verbatim>\<open>PlexStreamsSensor\<close>\<close>

text \<open>The closure \<^verbatim>\<open>fn\<close> of \<^verbatim>\<open>as_numeric\<close>; the two \<^verbatim>\<open>get\<close> calls and \<^verbatim>\<open>float\<close> may raise.\<close>

definition PlexStreamsSensor_fn :: "sensor \<Rightarrow> world \<Rightarrow> (exn + real) \<times> world" where
  "PlexStreamsSensor_fn s w =
     (case plex_get s ''/status/sessions'' w of
        (j, w') \<Rightarrow>
          (case dict_get (py_or j (JObj [])) ''MediaContainer'' (JObj []) of
             Inl x \<Rightarrow> (Inl x, w')
           | Inr mc \<Rightarrow>
               (case dict_get mc ''size'' (JNum 0) of
                  Inl x \<Rightarrow> (Inl x, w')
                | Inr sz \<Rightarrow> (py_float w' sz, w'))))"

text \<open>\<^verbatim>\<open>as_numeric\<close> of \<^verbatim>\<open>sensors_custom.py\<close>: cache, then push, then return.\<close>

definition PlexStreamsSensor_as_numeric ::
  "real \<Rightarrow> sensor \<Rightarrow> world \<Rightarrow> (exn + real) \<times> sensor \<times> world" where
  "PlexStreamsSensor_as_numeric now s w =
     (case cached ''streams'' (PlexStreamsSensor_fn s) now s w of
        (Inl x, s', w') \<Rightarrow> (Inl x, s', w')
      | (Inr v, s', w') \<Rightarrow> (Inr v, push s' v, w'))"

text \<open>\<^verbatim>\<open>as_numeric\<close> of \<^verbatim>\<open>sensors_custom_plex.py\<close>: no history.\<close>

definition PlexStreamsSensor_as_numeric_plex ::
  "real \<Rightarrow> sensor \<Rightarrow> world \<Rightarrow> (exn + real) \<times> sensor \<times> world" where
  "PlexStreamsSensor_as_numeric_plex now s w = cached ''streams'' (PlexStreamsSensor_fn s) now s w"

definition PlexStreamsSensor_as_string :: "sensor \<Rightarrow> string" where
  "PlexStreamsSensor_as_string s = show_int (py_int (cache_get s ''streams'')) @ '' streams''"

subsection \<open>\<^verbatim>\<open>ProxmoxNodeUptimeSensor\<close>\<close>

definition ProxmoxNodeUptimeSensor_calc :: "sensor \<Rightarrow> world \<Rightarrow> (exn + real) \<times> world" where
  "ProxmoxNodeUptimeSensor_calc s w =
     (case pmx_get s (''/nodes/'' @ node s @ ''/status'') w of
        (d, w') \<Rightarrow>
          (case dict_get (py_or d (JObj [])) ''uptime'' (JNum 0) of
             Inl x \<Rightarrow> (Inl x, w')
           | Inr u \<Rightarrow> (py_float w' u, w')))"

text \<open>\<^verbatim>\<open>as_numeric\<close> of \<^verbatim>\<open>sensors_custom.py\<close>: the hours are pushed and returned.\<close>

definition ProxmoxNodeUptimeSensor_as_numeric ::
  "real \<Rightarrow> sensor \<Rightarrow> world \<Rightarrow> (exn + real) \<times> sensor \<times> world" where
  "ProxmoxNodeUptimeSensor_as_numeric now s w =
     (case cached (''nodeupt_'' @ node s) (ProxmoxNodeUptimeSensor_calc s) now s w of
        (Inl x, s', w') \<Rightarrow> (Inl x, s', w')
      | (Inr sec, s', w') \<Rightarrow> (let hrs = sec / 3600 in (Inr hrs, push s' hrs, w')))"

text \<open>
  A compute method of \<^verbatim>\<open>sensors_custom_proxmox.py\<close> as its \<^verbatim>\<open>_cached\<close> sees it: each
  \<^verbatim>\<open>_calc\<close> there returns a float or raises, never \<^verbatim>\<open>None\<close>.
\<close>

definition returning :: "('w \<Rightarrow> (exn + real) \<times> 'w) \<Rightarrow> 'w \<Rightarrow> (exn + real option) \<times> 'w" where
  "returning fn w = (case fn w of (Inl x, w') \<Rightarrow> (Inl x, w') | (Inr v, w') \<Rightarrow> (Inr (Some v), w'))"

text \<open>
  \<^verbatim>\<open>as_numeric\<close> of \<^verbatim>\<open>sensors_custom_proxmox.py\<close>; dividing \<^verbatim>\<open>None\<close> by 3600.0 would
  raise \<^verbatim>\<open>TypeError\<close>.
\<close>

definition ProxmoxNodeUptimeSensor_as_numeric_pmx ::
  "real \<Rightarrow> sensor \<Rightarrow> world \<Rightarrow> (exn + real) \<times> sensor \<times> world" where
  "ProxmoxNodeUptimeSensor_as_numeric_pmx now s w =
     (case pmx_cached (''nodeupt_'' @ node s) (returning (ProxmoxNodeUptimeSensor_calc s)) now s w of
        (Inl x, s', w') \<Rightarrow> (Inl x, s', w')
      | (Inr None, s', w') \<Rightarrow> (Inl TypeError, s', w')
      | (Inr (Some sec), s', w') \<Rightarrow> (Inr (sec / 3600), s', w'))"

text \<open>
  \<^verbatim>\<open>as_string\<close> (the same in both files): \<open>duration_text\<close> is its body after the read of
  \<^verbatim>\<open>sec\<close> from the cache.
\<close>

definition duration_text :: "real \<Rightarrow> string" where
  "duration_text sec =
     (let d = py_int (floordiv sec 86400);
          h = py_int (floordiv (py_mod sec 86400) 3600);
          m = py_int (floordiv (py_mod sec 3600) 60)
      in show_int d @ ''d '' @ show_int h @ ''h '' @ show_int m @ ''m'')"

definition ProxmoxNodeUptimeSensor_as_string :: "sensor \<Rightarrow> string" where
  "ProxmoxNodeUptimeSensor_as_string s = duration_text (cache_get s (''nodeupt_'' @ node s))"

subsection \<open>\<^verbatim>\<open>ProxmoxNodeCPUUsageSensor\<close>\<close>

text \<open>
  \<^verbatim>\<open>_calc\<close>: \<^verbatim>\<open>d.get("cpu")\<close> is outside the \<^verbatim>\<open>try\<close>; a failing \<^verbatim>\<open>float(cpu)\<close> inside it
  gives the sentinel 0.0.
\<close>

definition ProxmoxNodeCPUUsageSensor_calc :: "sensor \<Rightarrow> world \<Rightarrow> (exn + real) \<times> world" where
  "ProxmoxNodeCPUUsageSensor_calc s w =
     (case pmx_get s (''/nodes/'' @ node s @ ''/status'') w of
        (d, w') \<Rightarrow>
          (case dict_get (py_or d (JObj [])) ''cpu'' JNull of
             Inl x \<Rightarrow> (Inl x, w')
           | Inr cpu \<Rightarrow>
               (case py_float w' cpu of
                  Inl x \<Rightarrow> (Inr 0, w')
                | Inr c \<Rightarrow> (Inr (c * 100), w'))))"

text \<open>\<^verbatim>\<open>as_numeric\<close> of \<^verbatim>\<open>sensors_custom.py\<close>\<close>

definition ProxmoxNodeCPUUsageSensor_as_numeric ::
  "real \<Rightarrow> sensor \<Rightarrow> world \<Rightarrow> (exn + real) \<times> sensor \<times> world" where
  "ProxmoxNodeCPUUsageSensor_as_numeric now s w =
     (case cached (''nodecpu_'' @ node s) (ProxmoxNodeCPUUsageSensor_calc s) now s w of
        (Inl x, s', w') \<Rightarrow> (Inl x, s', w')
      | (Inr v, s', w') \<Rightarrow> (Inr v, push s' v, w'))"

text \<open>\<^verbatim>\<open>as_numeric\<close> of \<^verbatim>\<open>sensors_custom_proxmox.py\<close>: whatever \<^verbatim>\<open>_cached\<close> returns.\<close>

definition ProxmoxNodeCPUUsageSensor_as_numeric_pmx ::
  "real \<Rightarrow> sensor \<Rightarrow> world \<Rightarrow> (exn + real option) \<times> sensor \<times> world" where
  "ProxmoxNodeCPUUsageSensor_as_numeric_pmx now s w =
     pmx_cached (''nodecpu_'' @ node s) (returning (ProxmoxNodeCPUUsageSensor_calc s)) now s w"

text \<open>
  \<^verbatim>\<open>as_string\<close> (the same in both files). The format \<^verbatim>\<open>:.1f\<close> of a float is Python's own
  and is the parameter \<open>fmt1\<close>.
\<close>

definition ProxmoxNodeCPUUsageSensor_as_string :: "(real \<Rightarrow> string) \<Rightarrow> sensor \<Rightarrow> string" where
  "ProxmoxNodeCPUUsageSensor_as_string fmt1 s = fmt1 (cache_get s (''nodecpu_'' @ node s)) @ '' %''"

section \<open>Concrete inputs\<close>

text \<open>Compute functions that return a fixed value, and one that returns \<^verbatim>\<open>None\<close>.\<close>

definition compute_value :: "real \<Rightarrow> 'w \<Rightarrow> (exn + real) \<times> 'w" where
  "compute_value v w = (Inr v, w)"

definition compute_some :: "real \<Rightarrow> 'w \<Rightarrow> (exn + real option) \<times> 'w" where
  "compute_some v w = (Inr (Some v), w)"

definition compute_none :: "'w \<Rightarrow> (exn + real option) \<times> 'w" where
  "compute_none w = (Inr None, w)"

text \<open>A network on which every request raises, with nothing requested yet.\<close>

definition no_answer :: "nat \<Rightarrow> string \<Rightarrow> http_outcome" where
  "no_answer n u = Raises"

definition no_float :: "string \<Rightarrow> real option" where
  "no_float t = None"

definition offline :: world where
  "offline = \<lparr>respond = no_answer, sent = [], str_float = no_float\<rparr>"

text \<open>
  A network on which every request is answered with status 200 and one document that
  serves the Plex session listing and the Proxmox node status.
\<close>

definition status_doc :: json where
  "status_doc =
     JObj [(''MediaContainer'', JObj [(''size'', JNum 3)]),
           (''data'', JObj [(''uptime'', JNum 90061), (''cpu'', JNum (1 / 4))])]"

definition answer_ok :: "nat \<Rightarrow> string \<Rightarrow> http_outcome" where
  "answer_ok n u = Response 200 (Some status_doc)"

definition online :: world where
  "online = \<lparr>respond = answer_ok, sent = [], str_float = no_float\<rparr>"

text \<open>A sensor as constructed from a configuration with a URL, the node \<open>pve\<close> and a TTL of 30.\<close>

definition cold :: sensor where
  "cold = new_sensor ''http://h'' ''pve'' 30"

text \<open>250 samples: the numbers 0 to 249.\<close>

definition samples :: "real list" where
  "samples = map real [0..<250]"

text \<open>A sensor whose entry for the key \<open>k\<close> holds 5, observed at time 0, with a TTL of 30.\<close>

definition warm :: sensor where
  "warm = store (new_sensor ''http://h'' ''pve'' 30) ''k'' 5 0"

text \<open>
  A sensor that has polled its stream count (3) and its CPU usage (25) at time 100.
\<close>

definition polled :: sensor where
  "polled = store (store cold ''streams'' 3 100) ''nodecpu_pve'' 25 100"

text \<open>A formatter of floats for concrete inputs: the integer part, in decimal.\<close>

definition whole_text :: "real \<Rightarrow> string" where
  "whole_text r = show_int (py_int r)"

text \<open>A Proxmox sensor constructed without a host: \<^verbatim>\<open>api_base\<close> is empty.\<close>

definition unconfigured :: sensor where
  "unconfigured = new_sensor [] ''pve'' 30"

section \<open>Facts about the cache\<close>

lemma hit_Some_iff:
  "hit s key now = Some c \<longleftrightarrow>
     cache s key = Some c \<and> now - last_get s key < real_of_int (ttl s)"
  by (simp add: hit_def split: option.splits)

lemma hit_None_iff:
  "hit s key now = None \<longleftrightarrow>
     cache s key = None \<or> real_of_int (ttl s) \<le> now - last_get s key"
  by (auto simp add: hit_def split: option.splits)

lemma cache_store: "cache (store s key v now) = (cache s)(key \<mapsto> v)"
  by (simp add: store_def)

lemma last_at_store: "last_at (store s key v now) = (last_at s)(key \<mapsto> now)"
  by (simp add: store_def)

lemma last_get_store: "last_get (store s key v now) key = now"
  by (simp add: last_get_def store_def)

lemma store_keeps [simp]:
  "hist (store s key v now) = hist s"
  "ttl (store s key v now) = ttl s"
  "node (store s key v now) = node s"
  "base_url (store s key v now) = base_url s"
  by (simp_all add: store_def)

lemma cached_hit: "hit s key now = Some c \<Longrightarrow> cached key fn now s w = (Inr c, s, w)"
  by (simp add: cached_def)

lemma cached_miss_value:
  "hit s key now = None \<Longrightarrow> fn w = (Inr v, w') \<Longrightarrow>
     cached key fn now s w = (Inr v, store s key v now, w')"
  by (simp add: cached_def)

lemma cached_miss_raise:
  "hit s key now = None \<Longrightarrow> fn w = (Inl x, w') \<Longrightarrow> cached key fn now s w = (Inl x, s, w')"
  by (simp add: cached_def)

lemma pmx_cached_hit:
  "hit s key now = Some c \<Longrightarrow> pmx_cached key fn now s w = (Inr (Some c), s, w)"
  by (simp add: pmx_cached_def)

lemma pmx_cached_miss_value:
  "hit s key now = None \<Longrightarrow> fn w = (Inr (Some v), w') \<Longrightarrow>
     pmx_cached key fn now s w = (Inr (Some v), store s key v now, w')"
  by (simp add: pmx_cached_def)

lemma pmx_cached_miss_none:
  "hit s key now = None \<Longrightarrow> fn w = (Inr None, w') \<Longrightarrow>
     pmx_cached key fn now s w = (Inr (cache s key), s, w')"
  by (simp add: pmx_cached_def)

lemma pmx_cached_miss_raise:
  "hit s key now = None \<Longrightarrow> fn w = (Inl x, w') \<Longrightarrow>
     pmx_cached key fn now s w = (Inl x, s, w')"
  by (simp add: pmx_cached_def)

text \<open>Every outcome of the two methods, by cases on the guard and on the compute function.\<close>

lemma cached_cases:
  assumes "cached key fn now s w = (r, s', w')"
  obtains
    (served) c where "hit s key now = Some c" "r = Inr c" "s' = s" "w' = w"
  | (raised) x where "hit s key now = None" "fn w = (Inl x, w')" "r = Inl x" "s' = s"
  | (stored) v where "hit s key now = None" "fn w = (Inr v, w')" "r = Inr v"
      "s' = store s key v now"
proof (cases "hit s key now")
  case (Some c)
  with assms show ?thesis by (intro served [of c]) (auto simp add: cached_def)
next
  case None
  obtain a w2 where f: "fn w = (a, w2)" by (cases "fn w")
  show ?thesis
  proof (cases a)
    case (Inl x)
    with assms None f show ?thesis by (intro raised [of x]) (auto simp add: cached_def)
  next
    case (Inr v)
    with assms None f show ?thesis by (intro stored [of v]) (auto simp add: cached_def)
  qed
qed

lemma pmx_cached_cases:
  assumes "pmx_cached key fn now s w = (r, s', w')"
  obtains
    (served) c where "hit s key now = Some c" "r = Inr (Some c)" "s' = s" "w' = w"
  | (raised) x where "hit s key now = None" "fn w = (Inl x, w')" "r = Inl x" "s' = s"
  | (kept) "hit s key now = None" "fn w = (Inr None, w')" "r = Inr (cache s key)" "s' = s"
  | (stored) v where "hit s key now = None" "fn w = (Inr (Some v), w')" "r = Inr (Some v)"
      "s' = store s key v now"
proof (cases "hit s key now")
  case (Some c)
  with assms show ?thesis by (intro served [of c]) (auto simp add: pmx_cached_def)
next
  case None
  obtain a w2 where f: "fn w = (a, w2)" by (cases "fn w")
  show ?thesis
  proof (cases a)
    case (Inl x)
    with assms None f show ?thesis by (intro raised [of x]) (auto simp add: pmx_cached_def)
  next
    case (Inr opt)
    show ?thesis
    proof (cases opt)
      case none: None
      with assms None f Inr show ?thesis by (intro kept) (auto simp add: pmx_cached_def)
    next
      case (Some v)
      with assms None f Inr show ?thesis by (intro stored [of v]) (auto simp add: pmx_cached_def)
    qed
  qed
qed

lemma counting_eq: "fn w = (r, w') \<Longrightarrow> counting fn (n, w) = (r, (Suc n, w'))"
  by (simp add: counting_def)

lemma counting_count: "counting fn (n, w) = (r, (n', w')) \<Longrightarrow> n' = Suc n"
  by (auto simp add: counting_def split: prod.splits)

lemma cached_counting:
  assumes "cached key (counting fn) now s (n, w) = (r, s', (n', w'))"
  shows "n' = (if hit s key now = None then Suc n else n)"
  using assms by (cases rule: cached_cases) (auto dest: counting_count)

lemma pmx_cached_counting:
  assumes "pmx_cached key (counting fn) now s (n, w) = (r, s', (n', w'))"
  shows "n' = (if hit s key now = None then Suc n else n)"
  using assms by (cases rule: pmx_cached_cases) (auto dest: counting_count)

lemma cached_returns_entry:
  assumes "cached key fn now s w = (Inr v, s', w')"
  shows "cache s' key = Some v"
  using assms by (cases rule: cached_cases) (auto simp add: hit_Some_iff cache_store)

lemma pmx_cached_returns_entry:
  assumes "pmx_cached key fn now s w = (Inr r, s', w')"
  shows "cache s' key = r"
  using assms by (cases rule: pmx_cached_cases) (auto simp add: hit_Some_iff cache_store)

lemma cached_keeps:
  assumes "cached key fn now s w = (r, s', w')"
  shows "hist s' = hist s" and "ttl s' = ttl s" and "node s' = node s"
  using assms by (cases rule: cached_cases; simp)+

lemma pmx_cached_keeps:
  assumes "pmx_cached key fn now s w = (r, s', w')"
  shows "hist s' = hist s" and "ttl s' = ttl s" and "node s' = node s"
  using assms by (cases rule: pmx_cached_cases; simp)+

lemma returning_never_none: "returning fn w \<noteq> (Inr None, w')"
  by (simp add: returning_def split: prod.splits sum.splits)

lemma pmx_cached_returning:
  assumes "pmx_cached key (returning fn) now s w = (Inr r, s', w')"
  shows "\<exists>v. r = Some v \<and> cache s' key = Some v"
  using assms
  by (cases rule: pmx_cached_cases) (auto simp add: hit_Some_iff cache_store returning_never_none)

section \<open>Facts about the history\<close>

lemma hist_push:
  "hist (push s v) = (if length (hist s) < 200 then hist s @ [v] else tl (hist s @ [v]))"
  by (simp add: push_def Let_def)

lemma push_keeps [simp]:
  "cache (push s v) = cache s"
  "last_at (push s v) = last_at s"
  "ttl (push s v) = ttl s"
  "node (push s v) = node s"
  "base_url (push s v) = base_url s"
  by (simp_all add: push_def Let_def)

lemma last_get_push [simp]: "last_get (push s v) key = last_get s key"
  by (simp add: last_get_def)

lemma hit_push [simp]: "hit (push s v) key now = hit s key now"
  by (simp add: hit_def split: option.splits)

lemma length_hist_push: "length (hist s) \<le> 200 \<Longrightarrow> length (hist (push s v)) \<le> 200"
  by (simp add: hist_push)

lemma length_hist_pushes: "length (hist s) \<le> 200 \<Longrightarrow> length (hist (pushes s vs)) \<le> 200"
  by (induction vs arbitrary: s) (simp_all add: length_hist_push)

lemma hist_pushes:
  "length (hist s) \<le> 200 \<Longrightarrow>
     hist (pushes s vs) = drop (length (hist s) + length vs - 200) (hist s @ vs)"
proof (induction vs arbitrary: s)
  case Nil
  then show ?case by simp
next
  case (Cons v vs)
  have le: "length (hist (push s v)) \<le> 200"
    using Cons.prems by (rule length_hist_push)
  have "hist (pushes (push s v) vs)
          = drop (length (hist (push s v)) + length vs - 200) (hist (push s v) @ vs)"
    using le by (rule Cons.IH)
  also have "\<dots> = drop (length (hist s) + length (v # vs) - 200) (hist s @ v # vs)"
  proof (cases "length (hist s) < 200")
    case True
    then show ?thesis by (simp add: hist_push)
  next
    case False
    with Cons.prems have full: "length (hist s) = 200" by simp
    then obtain x xs where h: "hist s = x # xs" by (cases "hist s") auto
    with full have "length xs = 199" by simp
    then show ?thesis using h full by (simp add: hist_push drop_Suc)
  qed
  finally show ?case by simp
qed

lemma last_values_pushes:
  assumes "length (hist s) \<le> 200" and "40 \<le> length vs"
  shows "last_values (pushes s vs) = drop (length vs - 40) vs"
proof -
  let ?all = "hist s @ vs"
  let ?n = "length (hist s) + length vs"
  have "last_values (pushes s vs)
          = drop (length (drop (?n - 200) ?all) - 40) (drop (?n - 200) ?all)"
    by (simp add: last_values_def hist_pushes [OF assms(1)])
  also have "\<dots> = drop (?n - 40) ?all"
    using assms by (simp add: min_def)
  also have "\<dots> = drop (length vs - 40) vs"
    using assms by simp
  finally show ?thesis .
qed

lemma pushes_keeps [simp]:
  "cache (pushes s vs) = cache s"
  "last_at (pushes s vs) = last_at s"
  "ttl (pushes s vs) = ttl s"
  "node (pushes s vs) = node s"
  by (induction vs arbitrary: s) simp_all

section \<open>Claims about the cache and the history\<close>

text \<open>
  Claim C1. Two cache-guarded calls with the same key: whatever the first call did, if
  after it the key has an entry and at the second call less than the TTL has elapsed since
  that entry's \<^verbatim>\<open>_last\<close> time, then the second call returns the cached value, changes
  nothing and does not run the compute function, and the two calls together have run it at
  most once. This holds for \<^verbatim>\<open>_cached\<close> of the Plex classes and of \<^verbatim>\<open>sensors_custom.py\<close>
  (\<open>cached\<close>) and for \<^verbatim>\<open>_cached\<close> of \<^verbatim>\<open>sensors_custom_proxmox.py\<close> (\<open>pmx_cached\<close>). The
  counter of \<open>counting\<close> is the number of runs of the compute function.
\<close>

theorem cached_twice_within_ttl:
  "(cached key (counting fn) now1 s (n, w) = (r1, s1, (n1, w1))
      \<and> cache s1 key = Some c \<and> now2 - last_get s1 key < real_of_int (ttl s1)
    \<longrightarrow> n1 \<le> Suc n \<and> cached key (counting fn) now2 s1 (n1, w1) = (Inr c, s1, (n1, w1)))
   \<and> (pmx_cached key (counting g) now1 s (n, w) = (q1, t1, (m1, v1))
      \<and> cache t1 key = Some d \<and> now2 - last_get t1 key < real_of_int (ttl t1)
    \<longrightarrow> m1 \<le> Suc n
        \<and> pmx_cached key (counting g) now2 t1 (m1, v1) = (Inr (Some d), t1, (m1, v1)))"
proof (intro conjI impI)
  assume a: "cached key (counting fn) now1 s (n, w) = (r1, s1, (n1, w1))
      \<and> cache s1 key = Some c \<and> now2 - last_get s1 key < real_of_int (ttl s1)"
  then have "cached key (counting fn) now1 s (n, w) = (r1, s1, (n1, w1))" by simp
  then have "n1 = (if hit s key now1 = None then Suc n else n)"
    by (rule cached_counting)
  then show "n1 \<le> Suc n" by simp
  from a have "hit s1 key now2 = Some c" by (simp add: hit_Some_iff)
  then show "cached key (counting fn) now2 s1 (n1, w1) = (Inr c, s1, (n1, w1))"
    by (rule cached_hit)
next
  assume a: "pmx_cached key (counting g) now1 s (n, w) = (q1, t1, (m1, v1))
      \<and> cache t1 key = Some d \<and> now2 - last_get t1 key < real_of_int (ttl t1)"
  then have "pmx_cached key (counting g) now1 s (n, w) = (q1, t1, (m1, v1))" by simp
  then have "m1 = (if hit s key now1 = None then Suc n else n)"
    by (rule pmx_cached_counting)
  then show "m1 \<le> Suc n" by simp
  from a have "hit t1 key now2 = Some d" by (simp add: hit_Some_iff)
  then show "pmx_cached key (counting g) now2 t1 (m1, v1) = (Inr (Some d), t1, (m1, v1))"
    by (rule pmx_cached_hit)
qed

text \<open>
  The claim at a concrete input: a new sensor, a first call at time 100 that computes 7, a
  second call at time 105 with a TTL of 30.
\<close>

theorem cached_twice_within_ttl_witness:
  "cached ''k'' (counting (compute_value 7)) 100 cold (0, ()) = (Inr 7, store cold ''k'' 7 100, (1, ()))
   \<and> cached ''k'' (counting (compute_value 7)) 105 (store cold ''k'' 7 100) (1, ())
       = (Inr 7, store cold ''k'' 7 100, (1, ()))
   \<and> pmx_cached ''k'' (counting (compute_some 7)) 100 cold (0, ())
       = (Inr (Some 7), store cold ''k'' 7 100, (1, ()))
   \<and> pmx_cached ''k'' (counting (compute_some 7)) 105 (store cold ''k'' 7 100) (1, ())
       = (Inr (Some 7), store cold ''k'' 7 100, (1, ()))"
proof -
  have h0: "hit cold ''k'' 100 = None"
    by (simp add: hit_def cold_def new_sensor_def)
  have c1: "cached ''k'' (counting (compute_value 7)) 100 cold (0, ())
              = (Inr 7, store cold ''k'' 7 100, (1, ()))"
    using h0 by (simp add: cached_def counting_def compute_value_def)
  have p1: "pmx_cached ''k'' (counting (compute_some 7)) 100 cold (0, ())
              = (Inr (Some 7), store cold ''k'' 7 100, (1, ()))"
    using h0 by (simp add: pmx_cached_def counting_def compute_some_def)
  have e: "cache (store cold ''k'' 7 100) ''k'' = Some 7"
    by (simp add: cache_store)
  have f: "105 - last_get (store cold ''k'' 7 100) ''k'' < real_of_int (ttl (store cold ''k'' 7 100))"
    by (simp add: last_get_store cold_def new_sensor_def)
  show ?thesis
    using c1 p1 e f
      cached_twice_within_ttl [of "''k''" "compute_value 7" 100 cold 0 "()" "Inr 7"
        "store cold ''k'' 7 100" 1 "()" 7 105 "compute_some 7" "Inr (Some 7)"
        "store cold ''k'' 7 100" 1 "()" 7]
    by simp
qed

text \<open>
  Claim C3. \<^verbatim>\<open>_cached\<close> of \<^verbatim>\<open>sensors_custom_proxmox.py\<close>: when the key has an entry, the
  entry is stale (so the compute function is called) and the compute function returns
  \<^verbatim>\<open>None\<close>, the sensor is left as it was, cached value and \<^verbatim>\<open>_last\<close> time included, and the
  call returns the previously cached value.
\<close>

theorem pmx_cached_retains_last_good:
  "cache s key = Some c \<Longrightarrow> real_of_int (ttl s) \<le> now - last_get s key \<Longrightarrow>
   fn w = (Inr None, w') \<Longrightarrow>
     pmx_cached key fn now s w = (Inr (Some c), s, w')"
  by (simp add: pmx_cached_miss_none hit_None_iff)

theorem pmx_cached_retains_last_good_witness:
  "cache warm ''k'' = Some 5 \<and> last_at warm ''k'' = Some 0
   \<and> pmx_cached ''k'' compute_none 31 warm () = (Inr (Some 5), warm, ())"
proof -
  have e: "cache warm ''k'' = Some 5" and l: "last_at warm ''k'' = Some 0"
    by (simp_all add: warm_def store_def)
  have t: "real_of_int (ttl warm) \<le> 31 - last_get warm ''k''"
    by (simp add: warm_def last_get_store new_sensor_def)
  have f: "compute_none () = (Inr None, ())"
    by (simp add: compute_none_def)
  show ?thesis
    using e l t f pmx_cached_retains_last_good [of warm "''k''" 5 31 compute_none "()" "()"]
    by simp
qed

text \<open>
  Claim C4. \<^verbatim>\<open>_cached\<close> of the Plex classes and of \<^verbatim>\<open>sensors_custom.py\<close>: when the compute
  function is called (no fresh entry) and returns \<open>v\<close>, whatever \<open>v\<close> is, the call stores
  \<open>v\<close> under the key and sets the key's \<^verbatim>\<open>_last\<close> time to the current time. A failed fetch
  makes the compute functions return the sentinel 0: the closure of \<^verbatim>\<open>PlexStreamsSensor\<close>
  and \<^verbatim>\<open>_calc\<close> of \<^verbatim>\<open>ProxmoxNodeCPUUsageSensor\<close> return 0 when the transport gives
  \<^verbatim>\<open>None\<close>.
\<close>

theorem cached_accepts_failure_sentinel:
  "(hit s key now = None \<and> fn w = (Inr v, w')
     \<longrightarrow> cached key fn now s w = (Inr v, store s key v now, w')
         \<and> cache (store s key v now) key = Some v
         \<and> last_at (store s key v now) key = Some now)
   \<and> (plex_get s ''/status/sessions'' u = (JNull, u') \<longrightarrow> PlexStreamsSensor_fn s u = (Inr 0, u'))
   \<and> (pmx_get s (''/nodes/'' @ node s @ ''/status'') x = (JNull, x')
     \<longrightarrow> ProxmoxNodeCPUUsageSensor_calc s x = (Inr 0, x'))"
  by (simp add: cached_miss_value cache_store last_at_store PlexStreamsSensor_fn_def
      ProxmoxNodeCPUUsageSensor_calc_def py_or_def)

theorem cached_accepts_failure_sentinel_witness:
  "cached ''k'' (compute_value 0) 31 warm () = (Inr 0, store warm ''k'' 0 31, ())
   \<and> cache (store warm ''k'' 0 31) ''k'' = Some 0
   \<and> last_at (store warm ''k'' 0 31) ''k'' = Some 31
   \<and> PlexStreamsSensor_fn warm offline = (Inr 0, offline\<lparr>sent := [''http://h/status/sessions'']\<rparr>)
   \<and> ProxmoxNodeCPUUsageSensor_calc warm offline
       = (Inr 0, offline\<lparr>sent := [''http://h/nodes/pve/status'']\<rparr>)"
proof -
  have h: "hit warm ''k'' 31 = None"
    by (simp add: hit_def warm_def store_def new_sensor_def last_get_def)
  have f: "compute_value 0 () = (Inr 0, ())"
    by (simp add: compute_value_def)
  have p: "plex_get warm ''/status/sessions'' offline
             = (JNull, offline\<lparr>sent := [''http://h/status/sessions'']\<rparr>)"
    by (simp add: plex_get_def requests_get_def warm_def store_def new_sensor_def offline_def
        no_answer_def)
  have q: "pmx_get warm (''/nodes/'' @ node warm @ ''/status'') offline
             = (JNull, offline\<lparr>sent := [''http://h/nodes/pve/status'']\<rparr>)"
    by (simp add: pmx_get_def requests_get_def warm_def store_def new_sensor_def offline_def
        no_answer_def)
  show ?thesis
    using h f p q
      cached_accepts_failure_sentinel [where s = warm and key = "''k''" and now = 31
        and fn = "compute_value 0" and w = "()" and v = 0 and w' = "()"
        and u = offline and u' = "offline\<lparr>sent := [''http://h/status/sessions'']\<rparr>"
        and x = offline and x' = "offline\<lparr>sent := [''http://h/nodes/pve/status'']\<rparr>"]
    by simp
qed

text \<open>
  Claim C5. Starting from a history of at most 200 samples (a new sensor has none), after
  any sequence of pushes the history has at most 200 samples and consists of the newest
  samples of everything pushed, in push order (the oldest are dropped from the head). Once
  at least 40 values have been pushed, \<^verbatim>\<open>last_values\<close> is the last 40 of them, oldest first;
  after 250 pushes these are the pushed values 211 to 250. \<^verbatim>\<open>last_values\<close> is a function
  of the sensor that returns a list and no sensor: it cannot change the history.
\<close>

theorem history_bounded_fifo:
  "length (hist s) \<le> 200 \<Longrightarrow>
     length (hist (pushes s vs)) \<le> 200
     \<and> hist (pushes s vs) = drop (length (hist s) + length vs - 200) (hist s @ vs)
     \<and> (40 \<le> length vs \<longrightarrow> last_values (pushes s vs) = drop (length vs - 40) vs)
     \<and> (length vs = 250 \<longrightarrow>
          last_values (pushes s vs) = drop 210 vs \<and> length (last_values (pushes s vs)) = 40)"
proof (intro conjI impI)
  assume b: "length (hist s) \<le> 200"
  show "length (hist (pushes s vs)) \<le> 200"
    using b by (rule length_hist_pushes)
  show "hist (pushes s vs) = drop (length (hist s) + length vs - 200) (hist s @ vs)"
    using b by (rule hist_pushes)
  show "last_values (pushes s vs) = drop (length vs - 40) vs" if "40 \<le> length vs"
    using b that by (rule last_values_pushes)
  show "last_values (pushes s vs) = drop 210 vs" if "length vs = 250"
    using last_values_pushes [OF b, of vs] that by simp
  show "length (last_values (pushes s vs)) = 40" if "length vs = 250"
    using last_values_pushes [OF b, of vs] that by simp
qed

theorem history_bounded_fifo_witness:
  "length (hist cold) \<le> 200 \<and> length samples = 250
   \<and> length (hist (pushes cold samples)) \<le> 200
   \<and> hist (pushes cold samples) = drop 50 samples
   \<and> last_values (pushes cold samples) = drop 210 samples
   \<and> length (last_values (pushes cold samples)) = 40"
proof -
  have b: "length (hist cold) \<le> 200" and e: "hist cold = []"
    by (simp_all add: cold_def new_sensor_def)
  have n: "length samples = 250"
    by (simp add: samples_def)
  show ?thesis
    using b e n history_bounded_fifo [OF b, of samples] by simp
qed

text \<open>
  Claim C6, as stated, fails for \<^verbatim>\<open>_cached\<close> of \<^verbatim>\<open>sensors_custom_proxmox.py\<close>: with an entry
  observed at time 0 and a TTL of 30, a call at time 31 runs the compute function once,
  the function returns \<^verbatim>\<open>None\<close>, and the entry's \<^verbatim>\<open>_last\<close> time is still 0, not 31.
\<close>

theorem pmx_cached_failure_keeps_observed_at:
  "cache warm ''k'' = Some 5
   \<and> real_of_int (ttl warm) \<le> 31 - last_get warm ''k''
   \<and> pmx_cached ''k'' (counting compute_none) 31 warm (0, ()) = (Inr (Some 5), warm, (1, ()))
   \<and> last_get warm ''k'' = 0
   \<and> last_get warm ''k'' \<noteq> 31"
proof -
  have h: "hit warm ''k'' 31 = None"
    by (simp add: hit_def warm_def store_def new_sensor_def last_get_def)
  have e: "cache warm ''k'' = Some 5"
    by (simp add: warm_def store_def)
  have l: "last_get warm ''k'' = 0"
    by (simp add: warm_def last_get_store)
  have t: "ttl warm = 30"
    by (simp add: warm_def new_sensor_def)
  have "pmx_cached ''k'' (counting compute_none) 31 warm (0, ()) = (Inr (cache warm ''k''), warm, (1, ()))"
    using h by (simp add: pmx_cached_def counting_def compute_none_def)
  with e l t show ?thesis by simp
qed

text \<open>
  Claim C6, amended. When the key has an entry and the TTL or more has elapsed since its
  \<^verbatim>\<open>_last\<close> time, the next call runs the compute function exactly once. If the function
  returns a value (for \<open>cached\<close> any float, the sentinel 0 included; for \<open>pmx_cached\<close>
  anything but \<^verbatim>\<open>None\<close>), the value is stored and the \<^verbatim>\<open>_last\<close> time becomes the time of
  the call. If the function given to \<open>pmx_cached\<close> returns \<^verbatim>\<open>None\<close>, the sensor is left
  as it was.
\<close>

theorem cached_after_ttl_expiry:
  "cache s key = Some c \<Longrightarrow> real_of_int (ttl s) \<le> now - last_get s key \<Longrightarrow>
     (fn w = (Inr v, w') \<longrightarrow>
        cached key (counting fn) now s (n, w) = (Inr v, store s key v now, (Suc n, w'))
        \<and> last_get (store s key v now) key = now)
     \<and> (g w = (Inr (Some v), w') \<longrightarrow>
        pmx_cached key (counting g) now s (n, w) = (Inr (Some v), store s key v now, (Suc n, w'))
        \<and> last_get (store s key v now) key = now)
     \<and> (g2 w = (Inr None, w') \<longrightarrow>
        pmx_cached key (counting g2) now s (n, w) = (Inr (Some c), s, (Suc n, w')))"
proof -
  assume e: "cache s key = Some c" and t: "real_of_int (ttl s) \<le> now - last_get s key"
  then have h: "hit s key now = None"
    by (simp add: hit_None_iff)
  show ?thesis
    using h e
    by (simp add: cached_miss_value pmx_cached_miss_value pmx_cached_miss_none counting_eq
        last_get_store)
qed

theorem cached_after_ttl_expiry_witness:
  "cached ''k'' (counting (compute_value 9)) 31 warm (0, ())
     = (Inr 9, store warm ''k'' 9 31, (1, ()))
   \<and> pmx_cached ''k'' (counting (compute_some 9)) 31 warm (0, ())
     = (Inr (Some 9), store warm ''k'' 9 31, (1, ()))
   \<and> last_get (store warm ''k'' 9 31) ''k'' = 31
   \<and> pmx_cached ''k'' (counting compute_none) 31 warm (0, ()) = (Inr (Some 5), warm, (1, ()))"
proof -
  have e: "cache warm ''k'' = Some 5"
    by (simp add: warm_def store_def)
  have t: "real_of_int (ttl warm) \<le> 31 - last_get warm ''k''"
    by (simp add: warm_def last_get_store new_sensor_def)
  have f: "compute_value 9 () = (Inr 9, ())" "compute_some 9 () = (Inr (Some 9), ())"
    "compute_none () = (Inr None, ())"
    by (simp_all add: compute_value_def compute_some_def compute_none_def)
  show ?thesis
    using f cached_after_ttl_expiry [OF e t, of "compute_value 9" "()" 9 "()" 0
        "compute_some 9" compute_none]
    by simp
qed

text \<open>
  Claim C9. A call of either \<^verbatim>\<open>_cached\<close> writes \<^verbatim>\<open>_cache\<close> and \<^verbatim>\<open>_last\<close> together or not at
  all: afterwards either both dictionaries are what they were, or both have been assigned
  at the key of the call (the value, and the time of the call) and nowhere else. So the
  two dictionaries keep the same keys, as they have in a new sensor. \<^verbatim>\<open>_push\<close>, the only
  other method that changes a sensor, leaves both dictionaries alone.
\<close>

theorem cache_entry_written_together:
  "(cached key fn now s w = (r, s', w') \<longrightarrow>
      (cache s' = cache s \<and> last_at s' = last_at s
       \<or> (\<exists>v. cache s' = (cache s)(key \<mapsto> v) \<and> last_at s' = (last_at s)(key \<mapsto> now)))
      \<and> (dom (cache s) = dom (last_at s) \<longrightarrow> dom (cache s') = dom (last_at s')))
   \<and> (pmx_cached key g now s w = (q, t', u') \<longrightarrow>
      (cache t' = cache s \<and> last_at t' = last_at s
       \<or> (\<exists>v. cache t' = (cache s)(key \<mapsto> v) \<and> last_at t' = (last_at s)(key \<mapsto> now)))
      \<and> (dom (cache s) = dom (last_at s) \<longrightarrow> dom (cache t') = dom (last_at t')))
   \<and> cache (push s x) = cache s \<and> last_at (push s x) = last_at s
   \<and> dom (cache (new_sensor a b i)) = dom (last_at (new_sensor a b i))"
proof (intro conjI impI)
  assume a: "cached key fn now s w = (r, s', w')"
  then show "cache s' = cache s \<and> last_at s' = last_at s
       \<or> (\<exists>v. cache s' = (cache s)(key \<mapsto> v) \<and> last_at s' = (last_at s)(key \<mapsto> now))"
    by (cases rule: cached_cases) (auto simp add: cache_store last_at_store)
  assume d: "dom (cache s) = dom (last_at s)"
  from a show "dom (cache s') = dom (last_at s')"
    by (cases rule: cached_cases) (simp_all add: cache_store last_at_store d)
next
  assume a: "pmx_cached key g now s w = (q, t', u')"
  then show "cache t' = cache s \<and> last_at t' = last_at s
       \<or> (\<exists>v. cache t' = (cache s)(key \<mapsto> v) \<and> last_at t' = (last_at s)(key \<mapsto> now))"
    by (cases rule: pmx_cached_cases) (auto simp add: cache_store last_at_store)
  assume d: "dom (cache s) = dom (last_at s)"
  from a show "dom (cache t') = dom (last_at t')"
    by (cases rule: pmx_cached_cases) (simp_all add: cache_store last_at_store d)
qed (simp_all add: new_sensor_def)

theorem cache_entry_written_together_witness:
  "cached ''k'' (compute_value 9) 31 warm () = (Inr 9, store warm ''k'' 9 31, ())
   \<and> pmx_cached ''k'' compute_none 31 warm () = (Inr (Some 5), warm, ())
   \<and> dom (cache warm) = dom (last_at warm)
   \<and> dom (cache (store warm ''k'' 9 31)) = dom (last_at (store warm ''k'' 9 31))"
proof -
  have h: "hit warm ''k'' 31 = None"
    by (simp add: hit_def warm_def store_def new_sensor_def last_get_def)
  have e: "cache warm ''k'' = Some 5"
    by (simp add: warm_def store_def)
  have c: "cached ''k'' (compute_value 9) 31 warm () = (Inr 9, store warm ''k'' 9 31, ())"
    using h by (simp add: cached_def compute_value_def)
  have p: "pmx_cached ''k'' compute_none 31 warm () = (Inr (Some 5), warm, ())"
    using h e by (simp add: pmx_cached_def compute_none_def)
  have d: "dom (cache warm) = dom (last_at warm)"
    by (simp add: warm_def store_def new_sensor_def)
  show ?thesis
    using c p d
      cache_entry_written_together [of "''k''" "compute_value 9" 31 warm "()" "Inr 9"
        "store warm ''k'' 9 31" "()" compute_none "Inr (Some 5)" warm "()"]
    by simp
qed

section \<open>Facts about the transport and the sensors\<close>

lemma show_nat_small: "n < 10 \<Longrightarrow> show_nat n = [digit_char n]"
  by simp

lemma show_nat_large:
  "\<not> n < 10 \<Longrightarrow> show_nat n = show_nat (n div 10) @ [digit_char (n mod 10)]"
  by simp

declare show_nat.simps [simp del]

lemma plex_get_no_url: "base_url s = [] \<Longrightarrow> plex_get s ep w = (JNull, w)"
  by (simp add: plex_get_def)

lemma pmx_get_sends: "sent (snd (pmx_get s ep w)) = sent w @ [base_url s @ ep]"
  by (simp add: pmx_get_def requests_get_def split: http_outcome.splits)

lemma plex_fn_no_url: "base_url s = [] \<Longrightarrow> PlexStreamsSensor_fn s w = (Inr 0, w)"
  by (simp add: PlexStreamsSensor_fn_def plex_get_no_url py_or_def)

text \<open>
  The Plex half of the empty-URL rule: \<^verbatim>\<open>as_numeric\<close> of \<^verbatim>\<open>PlexStreamsSensor\<close> hands nothing
  to \<^verbatim>\<open>requests.get\<close> and returns the cached value or the sentinel 0.
\<close>

lemma plex_as_numeric_no_url:
  assumes "base_url s = []"
  shows "\<exists>v s'. PlexStreamsSensor_as_numeric now s w = (Inr v, s', w)
           \<and> (hit s ''streams'' now = None \<longrightarrow> v = 0)"
proof (cases "hit s ''streams'' now")
  case None
  then show ?thesis
    using assms
    by (simp add: PlexStreamsSensor_as_numeric_def cached_miss_value [OF None plex_fn_no_url])
next
  case (Some c)
  then show ?thesis
    by (simp add: PlexStreamsSensor_as_numeric_def cached_hit)
qed

lemma floordiv_nat: "floordiv (real n) (real m) = real (n div m)"
  by (simp add: floordiv_def floor_divide_of_nat_eq)

lemma py_mod_nat: "py_mod (real n) (real m) = real (n mod m)"
proof -
  have f: "\<lfloor>real n / real m\<rfloor> = int (n div m)"
    by (simp add: floor_divide_of_nat_eq)
  have "n mod m = n - m * (n div m)"
    by (simp add: minus_mult_div_eq_mod)
  then have "real (n mod m) = real n - real (m * (n div m))"
    by (simp add: of_nat_diff)
  then show ?thesis
    by (simp add: py_mod_def f)
qed

lemma py_int_nat: "py_int (real n) = int n"
  by (simp add: py_int_def)

lemma duration_text_nat:
  "duration_text (real n) =
     show_int (int (n div 86400)) @ ''d '' @ show_int (int (n mod 86400 div 3600)) @ ''h ''
       @ show_int (int (n mod 3600 div 60)) @ ''m''"
proof -
  have d: "floordiv (real n) 86400 = real (n div 86400)"
    using floordiv_nat [of n 86400] by simp
  have m1: "py_mod (real n) 86400 = real (n mod 86400)"
    using py_mod_nat [of n 86400] by simp
  have m2: "py_mod (real n) 3600 = real (n mod 3600)"
    using py_mod_nat [of n 3600] by simp
  have h: "floordiv (real (n mod 86400)) 3600 = real (n mod 86400 div 3600)"
    using floordiv_nat [of "n mod 86400" 3600] by simp
  have m: "floordiv (real (n mod 3600)) 60 = real (n mod 3600 div 60)"
    using floordiv_nat [of "n mod 3600" 60] by simp
  show ?thesis
    by (simp only: duration_text_def Let_def d m1 m2 h m py_int_nat)
qed

lemma duration_text_90061: "duration_text 90061 = ''1d 1h 1m''"
  using duration_text_nat [of 90061]
  by (simp add: show_int_def show_nat_small digit_char_def)

text \<open>What a returning \<^verbatim>\<open>as_numeric\<close> has done: the cache-guarded call, then the push.\<close>

lemma cached_then_push:
  assumes "(case cached key fn now s w of
              (Inl x, s1, w1) \<Rightarrow> (Inl x, s1, w1)
            | (Inr v, s1, w1) \<Rightarrow> (Inr v, push s1 v, w1)) = (Inr v, s', w')"
  obtains s1 where "cached key fn now s w = (Inr v, s1, w')" and "s' = push s1 v"
proof -
  obtain r s1 w1 where c: "cached key fn now s w = (r, s1, w1)"
    by (cases "cached key fn now s w") auto
  show ?thesis
  proof (cases r)
    case (Inl x)
    with assms c show ?thesis by simp
  next
    case (Inr v0)
    with assms c show ?thesis by (intro that [of s1]) auto
  qed
qed

lemma uptime_as_numeric_returns:
  assumes "ProxmoxNodeUptimeSensor_as_numeric now s w = (Inr h, s', w')"
  obtains sec s1 where
    "cached (''nodeupt_'' @ node s) (ProxmoxNodeUptimeSensor_calc s) now s w = (Inr sec, s1, w')"
    and "h = sec / 3600" and "s' = push s1 h"
proof -
  obtain r s1 w1 where
    c: "cached (''nodeupt_'' @ node s) (ProxmoxNodeUptimeSensor_calc s) now s w = (r, s1, w1)"
    by (cases "cached (''nodeupt_'' @ node s) (ProxmoxNodeUptimeSensor_calc s) now s w") auto
  show ?thesis
  proof (cases r)
    case (Inl x)
    with assms c show ?thesis by (simp add: ProxmoxNodeUptimeSensor_as_numeric_def)
  next
    case (Inr sec)
    with assms c show ?thesis
      by (intro that [of sec s1]) (auto simp add: ProxmoxNodeUptimeSensor_as_numeric_def Let_def)
  qed
qed

lemma uptime_as_numeric_pmx_returns:
  assumes "ProxmoxNodeUptimeSensor_as_numeric_pmx now s w = (Inr h, s', w')"
  obtains sec where
    "pmx_cached (''nodeupt_'' @ node s) (returning (ProxmoxNodeUptimeSensor_calc s)) now s w
       = (Inr (Some sec), s', w')"
    and "h = sec / 3600"
proof -
  obtain r s1 w1 where
    c: "pmx_cached (''nodeupt_'' @ node s) (returning (ProxmoxNodeUptimeSensor_calc s)) now s w
          = (r, s1, w1)"
    by (cases "pmx_cached (''nodeupt_'' @ node s) (returning (ProxmoxNodeUptimeSensor_calc s)) now s w")
      auto
  show ?thesis
  proof (cases r)
    case (Inl x)
    with assms c show ?thesis by (simp add: ProxmoxNodeUptimeSensor_as_numeric_pmx_def)
  next
    case (Inr opt)
    show ?thesis
    proof (cases opt)
      case None
      with assms c Inr show ?thesis by (simp add: ProxmoxNodeUptimeSensor_as_numeric_pmx_def)
    next
      case (Some sec)
      with assms c Inr show ?thesis
        by (intro that [of sec]) (auto simp add: ProxmoxNodeUptimeSensor_as_numeric_pmx_def)
    qed
  qed
qed

text \<open>After a returning \<^verbatim>\<open>as_numeric\<close> of the uptime sensor the entry holds the seconds.\<close>

lemma uptime_entry:
  assumes "ProxmoxNodeUptimeSensor_as_numeric now s w = (Inr h, s', w')"
  shows "cache s' (''nodeupt_'' @ node s') = Some (h * 3600)"
proof -
  from assms obtain sec s1 where
    c: "cached (''nodeupt_'' @ node s) (ProxmoxNodeUptimeSensor_calc s) now s w = (Inr sec, s1, w')"
    and h: "h = sec / 3600" and s': "s' = push s1 h"
    by (rule uptime_as_numeric_returns)
  from c have "cache s1 (''nodeupt_'' @ node s) = Some sec" by (rule cached_returns_entry)
  moreover from c have "node s1 = node s" by (rule cached_keeps)
  ultimately show ?thesis using h s' by simp
qed

lemma uptime_entry_pmx:
  assumes "ProxmoxNodeUptimeSensor_as_numeric_pmx now s w = (Inr h, s', w')"
  shows "cache s' (''nodeupt_'' @ node s') = Some (h * 3600)"
proof -
  from assms obtain sec where
    c: "pmx_cached (''nodeupt_'' @ node s) (returning (ProxmoxNodeUptimeSensor_calc s)) now s w
          = (Inr (Some sec), s', w')"
    and h: "h = sec / 3600"
    by (rule uptime_as_numeric_pmx_returns)
  from c have "cache s' (''nodeupt_'' @ node s) = Some sec" by (rule pmx_cached_returns_entry)
  moreover from c have "node s' = node s" by (rule pmx_cached_keeps)
  ultimately show ?thesis using h by simp
qed

text \<open>A sensor method that serves a fresh entry and pushes it, polled while the entry is fresh.\<close>

lemma polls_served:
  assumes f: "\<And>t s w. node s = nd \<Longrightarrow> hit s key t = Some c \<Longrightarrow> f t s w = (Inr c, push s c, w)"
  shows "node s = nd \<Longrightarrow> cache s key = Some c \<Longrightarrow>
         \<forall>t\<in>set ts. t - last_get s key < real_of_int (ttl s) \<Longrightarrow>
           polls f ts s w = (replicate (length ts) (Inr c), pushes s (replicate (length ts) c), w)"
proof (induction ts arbitrary: s)
  case Nil
  then show ?case by simp
next
  case (Cons t ts)
  from Cons.prems have "hit s key t = Some c" by (simp add: hit_Some_iff)
  with Cons.prems have step: "f t s w = (Inr c, push s c, w)" by (intro f)
  have "polls f ts (push s c) w
          = (replicate (length ts) (Inr c), pushes (push s c) (replicate (length ts) c), w)"
    using Cons.prems by (intro Cons.IH) simp_all
  with step show ?case by simp
qed

lemma hist_pushes_room:
  "length (hist s) + length vs \<le> 200 \<Longrightarrow> hist (pushes s vs) = hist s @ vs"
  by (simp add: hist_pushes)

lemma streams_served:
  "hit s ''streams'' t = Some c \<Longrightarrow> PlexStreamsSensor_as_numeric t s w = (Inr c, push s c, w)"
  by (simp add: PlexStreamsSensor_as_numeric_def cached_hit)

lemma nodecpu_served:
  "hit s (''nodecpu_'' @ node s) t = Some c \<Longrightarrow>
     ProxmoxNodeCPUUsageSensor_as_numeric t s w = (Inr c, push s c, w)"
  by (simp add: ProxmoxNodeCPUUsageSensor_as_numeric_def cached_hit)

section \<open>Claims about the transport and the sensors\<close>

text \<open>
  Claim C2 holds for the Plex client (\<open>plex_get_no_url\<close>, \<open>plex_as_numeric_no_url\<close>) and
  fails for the Proxmox client: \<^verbatim>\<open>_pmx_get\<close> has no test of the base URL. For a sensor
  constructed without a host, \<^verbatim>\<open>_pmx_get\<close> hands the bare endpoint path to
  \<^verbatim>\<open>requests.get\<close>, and so does every \<^verbatim>\<open>as_numeric\<close> built on it; on a network where that
  request raises, the result is \<^verbatim>\<open>None\<close> respectively the sentinel 0, after one transport
  invocation. \<^verbatim>\<open>_plex_get\<close> on the same sensor requests nothing.
\<close>

theorem pmx_get_unconfigured_invokes_transport:
  "base_url unconfigured = []
   \<and> pmx_get unconfigured ''/nodes/pve/status'' offline
       = (JNull, offline\<lparr>sent := [''/nodes/pve/status'']\<rparr>)
   \<and> ProxmoxNodeCPUUsageSensor_as_numeric 100 unconfigured offline
       = (Inr 0, push (store unconfigured ''nodecpu_pve'' 0 100) 0,
          offline\<lparr>sent := [''/nodes/pve/status'']\<rparr>)
   \<and> plex_get unconfigured ''/status/sessions'' offline = (JNull, offline)"
proof -
  have u: "base_url unconfigured = []" and n: "node unconfigured = ''pve''"
    by (simp_all add: unconfigured_def new_sensor_def)
  have g: "pmx_get unconfigured ''/nodes/pve/status'' offline
             = (JNull, offline\<lparr>sent := [''/nodes/pve/status'']\<rparr>)"
    by (simp add: pmx_get_def requests_get_def u offline_def no_answer_def)
  have c: "ProxmoxNodeCPUUsageSensor_calc unconfigured offline
             = (Inr 0, offline\<lparr>sent := [''/nodes/pve/status'']\<rparr>)"
    using g by (simp add: ProxmoxNodeCPUUsageSensor_calc_def n py_or_def)
  have h: "hit unconfigured ''nodecpu_pve'' 100 = None"
    by (simp add: hit_def unconfigured_def new_sensor_def)
  have "cached ''nodecpu_pve'' (ProxmoxNodeCPUUsageSensor_calc unconfigured) 100 unconfigured offline
          = (Inr 0, store unconfigured ''nodecpu_pve'' 0 100,
             offline\<lparr>sent := [''/nodes/pve/status'']\<rparr>)"
    using h c by (rule cached_miss_value)
  then have a: "ProxmoxNodeCPUUsageSensor_as_numeric 100 unconfigured offline
             = (Inr 0, push (store unconfigured ''nodecpu_pve'' 0 100) 0,
                offline\<lparr>sent := [''/nodes/pve/status'']\<rparr>)"
    by (simp add: ProxmoxNodeCPUUsageSensor_as_numeric_def n)
  show ?thesis
    using u g a by (simp add: plex_get_no_url)
qed

text \<open>
  Claim C7. \<^verbatim>\<open>as_string\<close> is a function of the sensor alone: it has no access to the
  network and returns no sensor, so it can neither fetch nor store. What it formats is the
  entry that the \<^verbatim>\<open>as_numeric\<close> just returned: a returning call of either \<^verbatim>\<open>_cached\<close>
  leaves the returned value in the entry of its key (for \<open>pmx_cached\<close>, a returned
  \<^verbatim>\<open>None\<close> means there is no entry), and for the stream, uptime and CPU sensors of all
  three files \<^verbatim>\<open>as_string\<close> after a returning \<^verbatim>\<open>as_numeric\<close> is the text of the returned
  number (for the uptime sensor, of the seconds whose hours were returned).
\<close>

theorem as_string_formats_as_numeric_entry:
  "(cached key fn now s w = (Inr v1, s1, w1) \<longrightarrow> cache s1 key = Some v1 \<and> cache_get s1 key = v1)
   \<and> (pmx_cached key g now s w = (Inr r2, s2, w2) \<longrightarrow> cache s2 key = r2)
   \<and> (PlexStreamsSensor_as_numeric now s u = (Inr v3, s3, u3)
       \<longrightarrow> PlexStreamsSensor_as_string s3 = show_int (py_int v3) @ '' streams'')
   \<and> (PlexStreamsSensor_as_numeric_plex now s u = (Inr v4, s4, u4)
       \<longrightarrow> PlexStreamsSensor_as_string s4 = show_int (py_int v4) @ '' streams'')
   \<and> (ProxmoxNodeUptimeSensor_as_numeric now s u = (Inr h5, s5, u5)
       \<longrightarrow> ProxmoxNodeUptimeSensor_as_string s5 = duration_text (h5 * 3600))
   \<and> (ProxmoxNodeUptimeSensor_as_numeric_pmx now s u = (Inr h6, s6, u6)
       \<longrightarrow> ProxmoxNodeUptimeSensor_as_string s6 = duration_text (h6 * 3600))
   \<and> (ProxmoxNodeCPUUsageSensor_as_numeric now s u = (Inr v7, s7, u7)
       \<longrightarrow> ProxmoxNodeCPUUsageSensor_as_string fmt1 s7 = fmt1 v7 @ '' %'')
   \<and> (ProxmoxNodeCPUUsageSensor_as_numeric_pmx now s u = (Inr r8, s8, u8)
       \<longrightarrow> (\<exists>v. r8 = Some v \<and> ProxmoxNodeCPUUsageSensor_as_string fmt1 s8 = fmt1 v @ '' %''))"
proof (intro conjI impI)
  assume "cached key fn now s w = (Inr v1, s1, w1)"
  then have e: "cache s1 key = Some v1" by (rule cached_returns_entry)
  then show "cache s1 key = Some v1" and "cache_get s1 key = v1"
    by (simp_all add: cache_get_def)
next
  assume "pmx_cached key g now s w = (Inr r2, s2, w2)"
  then show "cache s2 key = r2" by (rule pmx_cached_returns_entry)
next
  assume a: "PlexStreamsSensor_as_numeric now s u = (Inr v3, s3, u3)"
  then obtain q where "cached ''streams'' (PlexStreamsSensor_fn s) now s u = (Inr v3, q, u3)"
    and "s3 = push q v3"
    unfolding PlexStreamsSensor_as_numeric_def by (rule cached_then_push)
  then show "PlexStreamsSensor_as_string s3 = show_int (py_int v3) @ '' streams''"
    by (simp add: PlexStreamsSensor_as_string_def cache_get_def cached_returns_entry)
next
  assume "PlexStreamsSensor_as_numeric_plex now s u = (Inr v4, s4, u4)"
  then have "cache s4 ''streams'' = Some v4"
    unfolding PlexStreamsSensor_as_numeric_plex_def by (rule cached_returns_entry)
  then show "PlexStreamsSensor_as_string s4 = show_int (py_int v4) @ '' streams''"
    by (simp add: PlexStreamsSensor_as_string_def cache_get_def)
next
  assume "ProxmoxNodeUptimeSensor_as_numeric now s u = (Inr h5, s5, u5)"
  then have "cache s5 (''nodeupt_'' @ node s5) = Some (h5 * 3600)" by (rule uptime_entry)
  then show "ProxmoxNodeUptimeSensor_as_string s5 = duration_text (h5 * 3600)"
    by (simp add: ProxmoxNodeUptimeSensor_as_string_def cache_get_def)
next
  assume "ProxmoxNodeUptimeSensor_as_numeric_pmx now s u = (Inr h6, s6, u6)"
  then have "cache s6 (''nodeupt_'' @ node s6) = Some (h6 * 3600)" by (rule uptime_entry_pmx)
  then show "ProxmoxNodeUptimeSensor_as_string s6 = duration_text (h6 * 3600)"
    by (simp add: ProxmoxNodeUptimeSensor_as_string_def cache_get_def)
next
  assume a: "ProxmoxNodeCPUUsageSensor_as_numeric now s u = (Inr v7, s7, u7)"
  then obtain q where
    c: "cached (''nodecpu_'' @ node s) (ProxmoxNodeCPUUsageSensor_calc s) now s u = (Inr v7, q, u7)"
    and p: "s7 = push q v7"
    unfolding ProxmoxNodeCPUUsageSensor_as_numeric_def by (rule cached_then_push)
  from c have "cache q (''nodecpu_'' @ node s) = Some v7" by (rule cached_returns_entry)
  moreover from c have "node q = node s" by (rule cached_keeps)
  ultimately show "ProxmoxNodeCPUUsageSensor_as_string fmt1 s7 = fmt1 v7 @ '' %''"
    using p by (simp add: ProxmoxNodeCPUUsageSensor_as_string_def cache_get_def)
next
  assume "ProxmoxNodeCPUUsageSensor_as_numeric_pmx now s u = (Inr r8, s8, u8)"
  then have c: "pmx_cached (''nodecpu_'' @ node s) (returning (ProxmoxNodeCPUUsageSensor_calc s))
                  now s u = (Inr r8, s8, u8)"
    by (simp add: ProxmoxNodeCPUUsageSensor_as_numeric_pmx_def)
  from pmx_cached_returning [OF c]
  obtain v where "r8 = Some v" and "cache s8 (''nodecpu_'' @ node s) = Some v"
    by blast
  moreover from c have "node s8 = node s" by (rule pmx_cached_keeps)
  ultimately show "\<exists>v. r8 = Some v \<and> ProxmoxNodeCPUUsageSensor_as_string fmt1 s8 = fmt1 v @ '' %''"
    by (simp add: ProxmoxNodeCPUUsageSensor_as_string_def cache_get_def)
qed

section \<open>Runs on concrete inputs\<close>

lemma cold_fields:
  "base_url cold = ''http://h''" "node cold = ''pve''" "ttl cold = 30" "hist cold = []"
  "cache cold = Map.empty" "last_at cold = Map.empty"
  by (simp_all add: cold_def new_sensor_def)

lemma hit_cold: "hit cold key now = None"
  by (simp add: hit_def cold_fields)

lemma plex_get_online:
  "plex_get cold ''/status/sessions'' online
     = (status_doc, online\<lparr>sent := [''http://h/status/sessions'']\<rparr>)"
  by (simp add: plex_get_def requests_get_def cold_fields online_def answer_ok_def)

lemma pmx_get_online:
  "pmx_get cold ''/nodes/pve/status'' online
     = (JObj [(''uptime'', JNum 90061), (''cpu'', JNum (1 / 4))],
        online\<lparr>sent := [''http://h/nodes/pve/status'']\<rparr>)"
  by (simp add: pmx_get_def requests_get_def cold_fields online_def answer_ok_def status_doc_def)

lemma streams_fn_online:
  "PlexStreamsSensor_fn cold online = (Inr 3, online\<lparr>sent := [''http://h/status/sessions'']\<rparr>)"
  by (simp add: PlexStreamsSensor_fn_def plex_get_online status_doc_def py_or_def)

lemma uptime_calc_online:
  "ProxmoxNodeUptimeSensor_calc cold online
     = (Inr 90061, online\<lparr>sent := [''http://h/nodes/pve/status'']\<rparr>)"
  by (simp add: ProxmoxNodeUptimeSensor_calc_def cold_fields pmx_get_online py_or_def)

lemma nodecpu_calc_online:
  "ProxmoxNodeCPUUsageSensor_calc cold online
     = (Inr 25, online\<lparr>sent := [''http://h/nodes/pve/status'']\<rparr>)"
  by (simp add: ProxmoxNodeCPUUsageSensor_calc_def cold_fields pmx_get_online py_or_def)

lemma streams_as_numeric_online:
  "PlexStreamsSensor_as_numeric 100 cold online
     = (Inr 3, push (store cold ''streams'' 3 100) 3,
        online\<lparr>sent := [''http://h/status/sessions'']\<rparr>)"
  by (simp add: PlexStreamsSensor_as_numeric_def cached_def hit_cold streams_fn_online)

lemma streams_as_numeric_plex_online:
  "PlexStreamsSensor_as_numeric_plex 100 cold online
     = (Inr 3, store cold ''streams'' 3 100, online\<lparr>sent := [''http://h/status/sessions'']\<rparr>)"
  by (simp add: PlexStreamsSensor_as_numeric_plex_def cached_def hit_cold streams_fn_online)

lemma uptime_as_numeric_online:
  "ProxmoxNodeUptimeSensor_as_numeric 100 cold online
     = (Inr (90061 / 3600), push (store cold ''nodeupt_pve'' 90061 100) (90061 / 3600),
        online\<lparr>sent := [''http://h/nodes/pve/status'']\<rparr>)"
  by (simp add: ProxmoxNodeUptimeSensor_as_numeric_def cold_fields cached_def hit_cold
      uptime_calc_online Let_def)

lemma uptime_as_numeric_pmx_online:
  "ProxmoxNodeUptimeSensor_as_numeric_pmx 100 cold online
     = (Inr (90061 / 3600), store cold ''nodeupt_pve'' 90061 100,
        online\<lparr>sent := [''http://h/nodes/pve/status'']\<rparr>)"
proof -
  have "returning (ProxmoxNodeUptimeSensor_calc cold) online
          = (Inr (Some 90061), online\<lparr>sent := [''http://h/nodes/pve/status'']\<rparr>)"
    by (simp add: returning_def uptime_calc_online)
  then show ?thesis
    by (simp add: ProxmoxNodeUptimeSensor_as_numeric_pmx_def cold_fields pmx_cached_def hit_cold)
qed

lemma nodecpu_as_numeric_online:
  "ProxmoxNodeCPUUsageSensor_as_numeric 100 cold online
     = (Inr 25, push (store cold ''nodecpu_pve'' 25 100) 25,
        online\<lparr>sent := [''http://h/nodes/pve/status'']\<rparr>)"
  by (simp add: ProxmoxNodeCPUUsageSensor_as_numeric_def cold_fields cached_def hit_cold
      nodecpu_calc_online)

lemma nodecpu_as_numeric_pmx_online:
  "ProxmoxNodeCPUUsageSensor_as_numeric_pmx 100 cold online
     = (Inr (Some 25), store cold ''nodecpu_pve'' 25 100,
        online\<lparr>sent := [''http://h/nodes/pve/status'']\<rparr>)"
proof -
  have "returning (ProxmoxNodeCPUUsageSensor_calc cold) online
          = (Inr (Some 25), online\<lparr>sent := [''http://h/nodes/pve/status'']\<rparr>)"
    by (simp add: returning_def nodecpu_calc_online)
  then show ?thesis
    by (simp add: ProxmoxNodeCPUUsageSensor_as_numeric_pmx_def cold_fields pmx_cached_def hit_cold)
qed

lemma polled_fields:
  "node polled = ''pve''" "ttl polled = 30" "hist polled = []"
  "cache polled ''streams'' = Some 3" "cache polled ''nodecpu_pve'' = Some 25"
  "last_get polled ''streams'' = 100" "last_get polled ''nodecpu_pve'' = 100"
  by (simp_all add: polled_def store_def cold_fields last_get_def)

lemma hit_polled:
  "hit polled ''streams'' 105 = Some 3" "hit polled ''nodecpu_pve'' 105 = Some 25"
  by (simp_all add: hit_Some_iff polled_fields)

section \<open>Claims about the sensors, continued\<close>

theorem as_string_formats_as_numeric_entry_witness:
  "PlexStreamsSensor_as_numeric 100 cold online
     = (Inr 3, push (store cold ''streams'' 3 100) 3,
        online\<lparr>sent := [''http://h/status/sessions'']\<rparr>)
   \<and> PlexStreamsSensor_as_string (push (store cold ''streams'' 3 100) 3) = ''3 streams''
   \<and> PlexStreamsSensor_as_string (store cold ''streams'' 3 100) = ''3 streams''
   \<and> ProxmoxNodeUptimeSensor_as_numeric_pmx 100 cold online
     = (Inr (90061 / 3600), store cold ''nodeupt_pve'' 90061 100,
        online\<lparr>sent := [''http://h/nodes/pve/status'']\<rparr>)
   \<and> ProxmoxNodeUptimeSensor_as_string (store cold ''nodeupt_pve'' 90061 100) = ''1d 1h 1m''
   \<and> ProxmoxNodeUptimeSensor_as_string
        (push (store cold ''nodeupt_pve'' 90061 100) (90061 / 3600)) = ''1d 1h 1m''
   \<and> ProxmoxNodeCPUUsageSensor_as_string whole_text (push (store cold ''nodecpu_pve'' 25 100) 25)
     = ''25 %''
   \<and> ProxmoxNodeCPUUsageSensor_as_string whole_text (store cold ''nodecpu_pve'' 25 100) = ''25 %''
   \<and> cache (store cold ''k'' 7 100) ''k'' = Some 7"
proof -
  have c: "cached ''k'' (compute_value 7) 100 cold () = (Inr 7, store cold ''k'' 7 100, ())"
    by (simp add: cached_def hit_cold compute_value_def)
  have p: "pmx_cached ''k'' (compute_some 7) 100 cold () = (Inr (Some 7), store cold ''k'' 7 100, ())"
    by (simp add: pmx_cached_def hit_cold compute_some_def)
  have t: "whole_text 25 = ''25''" "show_int (py_int 3) = ''3''"
    by (simp_all add: whole_text_def show_int_def py_int_def show_nat_small show_nat_large
        digit_char_def)
  show ?thesis
    using c p t streams_as_numeric_online streams_as_numeric_plex_online
      uptime_as_numeric_online uptime_as_numeric_pmx_online
      nodecpu_as_numeric_online nodecpu_as_numeric_pmx_online
      as_string_formats_as_numeric_entry [where key = "''k''" and fn = "compute_value 7"
        and now = 100 and s = cold and w = "()" and ?v1.0 = 7 and ?s1.0 = "store cold ''k'' 7 100"
        and ?w1.0 = "()" and g = "compute_some 7" and ?r2.0 = "Some 7"
        and ?s2.0 = "store cold ''k'' 7 100" and ?w2.0 = "()" and u = online
        and ?v3.0 = 3 and ?s3.0 = "push (store cold ''streams'' 3 100) 3"
        and ?u3.0 = "online\<lparr>sent := [''http://h/status/sessions'']\<rparr>"
        and ?v4.0 = 3 and ?s4.0 = "store cold ''streams'' 3 100"
        and ?u4.0 = "online\<lparr>sent := [''http://h/status/sessions'']\<rparr>"
        and ?h5.0 = "90061 / 3600"
        and ?s5.0 = "push (store cold ''nodeupt_pve'' 90061 100) (90061 / 3600)"
        and ?u5.0 = "online\<lparr>sent := [''http://h/nodes/pve/status'']\<rparr>"
        and ?h6.0 = "90061 / 3600" and ?s6.0 = "store cold ''nodeupt_pve'' 90061 100"
        and ?u6.0 = "online\<lparr>sent := [''http://h/nodes/pve/status'']\<rparr>"
        and ?v7.0 = 25 and ?s7.0 = "push (store cold ''nodecpu_pve'' 25 100) 25"
        and ?u7.0 = "online\<lparr>sent := [''http://h/nodes/pve/status'']\<rparr>"
        and ?r8.0 = "Some 25" and ?s8.0 = "store cold ''nodecpu_pve'' 25 100"
        and ?u8.0 = "online\<lparr>sent := [''http://h/nodes/pve/status'']\<rparr>"
        and ?fmt1.0 = whole_text]
    by (simp add: duration_text_90061)
qed

text \<open>
  Claim C8. Whenever \<^verbatim>\<open>as_numeric\<close> of the uptime sensor returns and the entry it read or
  wrote holds 90061 seconds, it has returned 90061/3600 hours, a number between 25.0169
  and 25.0170, and \<^verbatim>\<open>as_string\<close> is \<open>1d 1h 1m\<close>; this holds in both files. For a whole,
  non-negative number of seconds the text is built from the days \<open>n div 86400\<close>, the
  hours \<open>n mod 86400 div 3600\<close> and the minutes \<open>n mod 3600 div 60\<close>. Floats are real
  numbers here.
\<close>

theorem uptime_90061_seconds:
  "(ProxmoxNodeUptimeSensor_as_numeric_pmx now s w = (Inr h, s', w')
      \<and> cache s' (''nodeupt_'' @ node s') = Some 90061
     \<longrightarrow> h = 90061 / 3600 \<and> 25.0169 < h \<and> h < 25.017
         \<and> ProxmoxNodeUptimeSensor_as_string s' = ''1d 1h 1m'')
   \<and> (ProxmoxNodeUptimeSensor_as_numeric now s w = (Inr k, t', x')
      \<and> cache t' (''nodeupt_'' @ node t') = Some 90061
     \<longrightarrow> k = 90061 / 3600 \<and> 25.0169 < k \<and> k < 25.017
         \<and> ProxmoxNodeUptimeSensor_as_string t' = ''1d 1h 1m'')
   \<and> duration_text (real n) =
       show_int (int (n div 86400)) @ ''d '' @ show_int (int (n mod 86400 div 3600)) @ ''h ''
         @ show_int (int (n mod 3600 div 60)) @ ''m''"
proof (intro conjI impI)
  assume a: "ProxmoxNodeUptimeSensor_as_numeric_pmx now s w = (Inr h, s', w')
      \<and> cache s' (''nodeupt_'' @ node s') = Some 90061"
  then have "cache s' (''nodeupt_'' @ node s') = Some (h * 3600)"
    by (intro uptime_entry_pmx [of now s w h s' w']) simp
  with a have h: "h * 3600 = 90061" by simp
  then show "h = 90061 / 3600" by simp
  with h show "25.0169 < h" and "h < 25.017" by simp_all
  from a show "ProxmoxNodeUptimeSensor_as_string s' = ''1d 1h 1m''"
    by (simp add: ProxmoxNodeUptimeSensor_as_string_def cache_get_def duration_text_90061)
next
  assume a: "ProxmoxNodeUptimeSensor_as_numeric now s w = (Inr k, t', x')
      \<and> cache t' (''nodeupt_'' @ node t') = Some 90061"
  then have "cache t' (''nodeupt_'' @ node t') = Some (k * 3600)"
    by (intro uptime_entry [of now s w k t' x']) simp
  with a have k: "k * 3600 = 90061" by simp
  then show "k = 90061 / 3600" by simp
  with k show "25.0169 < k" and "k < 25.017" by simp_all
  from a show "ProxmoxNodeUptimeSensor_as_string t' = ''1d 1h 1m''"
    by (simp add: ProxmoxNodeUptimeSensor_as_string_def cache_get_def duration_text_90061)
next
  show "duration_text (real n) =
       show_int (int (n div 86400)) @ ''d '' @ show_int (int (n mod 86400 div 3600)) @ ''h ''
         @ show_int (int (n mod 3600 div 60)) @ ''m''"
    by (rule duration_text_nat)
qed

theorem uptime_90061_seconds_witness:
  "ProxmoxNodeUptimeSensor_as_numeric_pmx 100 cold online
     = (Inr (90061 / 3600), store cold ''nodeupt_pve'' 90061 100,
        online\<lparr>sent := [''http://h/nodes/pve/status'']\<rparr>)
   \<and> cache (store cold ''nodeupt_pve'' 90061 100) ''nodeupt_pve'' = Some 90061
   \<and> ProxmoxNodeUptimeSensor_as_numeric 100 cold online
     = (Inr (90061 / 3600), push (store cold ''nodeupt_pve'' 90061 100) (90061 / 3600),
        online\<lparr>sent := [''http://h/nodes/pve/status'']\<rparr>)
   \<and> ProxmoxNodeUptimeSensor_as_string (store cold ''nodeupt_pve'' 90061 100) = ''1d 1h 1m''
   \<and> ProxmoxNodeUptimeSensor_as_string
        (push (store cold ''nodeupt_pve'' 90061 100) (90061 / 3600)) = ''1d 1h 1m''"
proof -
  have e: "cache (store cold ''nodeupt_pve'' 90061 100) ''nodeupt_pve'' = Some 90061"
    by (simp add: cache_store)
  have n: "node (store cold ''nodeupt_pve'' 90061 100) = ''pve''"
    by (simp add: cold_fields)
  show ?thesis
    using e n uptime_as_numeric_online uptime_as_numeric_pmx_online
      uptime_90061_seconds [where now = 100 and s = cold and w = online
        and h = "90061 / 3600" and s' = "store cold ''nodeupt_pve'' 90061 100"
        and w' = "online\<lparr>sent := [''http://h/nodes/pve/status'']\<rparr>"
        and k = "90061 / 3600"
        and t' = "push (store cold ''nodeupt_pve'' 90061 100) (90061 / 3600)"
        and x' = "online\<lparr>sent := [''http://h/nodes/pve/status'']\<rparr>"]
    by (simp add: cache_store)
qed

text \<open>
  Claim C10. In \<^verbatim>\<open>sensors_custom.py\<close> a returning \<^verbatim>\<open>as_numeric\<close> of the stream sensor and of
  the CPU sensor has pushed exactly one sample, the returned value: the history is the old
  one with that value appended, less its head if that made 201. A call served from a fresh
  entry pushes as well and requests nothing. So polling at times at which the entry is
  fresh returns the cached value every time, leaves the network untouched, and pushes one
  copy of the cached value per call: with room in the buffer the history grows by as many
  copies as there were calls.
\<close>

theorem as_numeric_pushes_every_call:
  "(PlexStreamsSensor_as_numeric now s w = (Inr v, s', w')
      \<longrightarrow> hist s' = (if length (hist s) < 200 then hist s @ [v] else tl (hist s @ [v])))
   \<and> (ProxmoxNodeCPUUsageSensor_as_numeric now s w = (Inr v2, s2, w2)
      \<longrightarrow> hist s2 = (if length (hist s) < 200 then hist s @ [v2] else tl (hist s @ [v2])))
   \<and> (cache s ''streams'' = Some c
       \<and> (\<forall>t\<in>set ts. t - last_get s ''streams'' < real_of_int (ttl s))
      \<longrightarrow> polls PlexStreamsSensor_as_numeric ts s w
            = (replicate (length ts) (Inr c), pushes s (replicate (length ts) c), w)
          \<and> (length (hist s) + length ts \<le> 200
              \<longrightarrow> hist (pushes s (replicate (length ts) c)) = hist s @ replicate (length ts) c))
   \<and> (cache s (''nodecpu_'' @ node s) = Some c2
       \<and> (\<forall>t\<in>set ts. t - last_get s (''nodecpu_'' @ node s) < real_of_int (ttl s))
      \<longrightarrow> polls ProxmoxNodeCPUUsageSensor_as_numeric ts s w
            = (replicate (length ts) (Inr c2), pushes s (replicate (length ts) c2), w)
          \<and> (length (hist s) + length ts \<le> 200
              \<longrightarrow> hist (pushes s (replicate (length ts) c2)) = hist s @ replicate (length ts) c2))"
proof (intro conjI impI)
  assume "PlexStreamsSensor_as_numeric now s w = (Inr v, s', w')"
  then obtain q where c: "cached ''streams'' (PlexStreamsSensor_fn s) now s w = (Inr v, q, w')"
    and p: "s' = push q v"
    unfolding PlexStreamsSensor_as_numeric_def by (rule cached_then_push)
  from c have "hist q = hist s" by (rule cached_keeps)
  with p show "hist s' = (if length (hist s) < 200 then hist s @ [v] else tl (hist s @ [v]))"
    by (simp add: hist_push)
next
  assume "ProxmoxNodeCPUUsageSensor_as_numeric now s w = (Inr v2, s2, w2)"
  then obtain q where
    c: "cached (''nodecpu_'' @ node s) (ProxmoxNodeCPUUsageSensor_calc s) now s w = (Inr v2, q, w2)"
    and p: "s2 = push q v2"
    unfolding ProxmoxNodeCPUUsageSensor_as_numeric_def by (rule cached_then_push)
  from c have "hist q = hist s" by (rule cached_keeps)
  with p show "hist s2 = (if length (hist s) < 200 then hist s @ [v2] else tl (hist s @ [v2]))"
    by (simp add: hist_push)
next
  assume a: "cache s ''streams'' = Some c
       \<and> (\<forall>t\<in>set ts. t - last_get s ''streams'' < real_of_int (ttl s))"
  have f: "\<And>t q x. node q = node s \<Longrightarrow> hit q ''streams'' t = Some c \<Longrightarrow>
             PlexStreamsSensor_as_numeric t q x = (Inr c, push q c, x)"
    by (rule streams_served)
  show "polls PlexStreamsSensor_as_numeric ts s w
          = (replicate (length ts) (Inr c), pushes s (replicate (length ts) c), w)"
    using a by (intro polls_served [where nd = "node s" and key = "''streams''"] f) simp_all
next
  assume a: "cache s (''nodecpu_'' @ node s) = Some c2
       \<and> (\<forall>t\<in>set ts. t - last_get s (''nodecpu_'' @ node s) < real_of_int (ttl s))"
  have f: "\<And>t q x. node q = node s \<Longrightarrow> hit q (''nodecpu_'' @ node s) t = Some c2 \<Longrightarrow>
             ProxmoxNodeCPUUsageSensor_as_numeric t q x = (Inr c2, push q c2, x)"
    using nodecpu_served by metis
  show "polls ProxmoxNodeCPUUsageSensor_as_numeric ts s w
          = (replicate (length ts) (Inr c2), pushes s (replicate (length ts) c2), w)"
    using a
    by (intro polls_served [where nd = "node s" and key = "''nodecpu_'' @ node s"] f) simp_all
next
  assume "length (hist s) + length ts \<le> 200"
  then show "hist (pushes s (replicate (length ts) c)) = hist s @ replicate (length ts) c"
    by (simp add: hist_pushes_room)
next
  assume "length (hist s) + length ts \<le> 200"
  then show "hist (pushes s (replicate (length ts) c2)) = hist s @ replicate (length ts) c2"
    by (simp add: hist_pushes_room)
qed

theorem as_numeric_pushes_every_call_witness:
  "PlexStreamsSensor_as_numeric 105 polled online = (Inr 3, push polled 3, online)
   \<and> ProxmoxNodeCPUUsageSensor_as_numeric 105 polled online = (Inr 25, push polled 25, online)
   \<and> hist (push polled 3) = [3]
   \<and> polls PlexStreamsSensor_as_numeric [101, 102, 103] polled online
       = ([Inr 3, Inr 3, Inr 3], pushes polled [3, 3, 3], online)
   \<and> hist (pushes polled [3, 3, 3]) = [3, 3, 3]
   \<and> polls ProxmoxNodeCPUUsageSensor_as_numeric [101, 102, 103] polled online
       = ([Inr 25, Inr 25, Inr 25], pushes polled [25, 25, 25], online)
   \<and> hist (pushes polled [25, 25, 25]) = [25, 25, 25]"
proof -
  have a: "PlexStreamsSensor_as_numeric 105 polled online = (Inr 3, push polled 3, online)"
    using hit_polled(1) by (rule streams_served)
  have b: "ProxmoxNodeCPUUsageSensor_as_numeric 105 polled online = (Inr 25, push polled 25, online)"
    using hit_polled(2) nodecpu_served [of polled 105 25 online] by (simp add: polled_fields)
  have r: "replicate (length [101, 102, 103 :: real]) x = [x, x, x]" for x :: 'a
    by (simp add: numeral_3_eq_3)
  show ?thesis
    using a b polled_fields
      as_numeric_pushes_every_call [where now = 105 and s = polled and w = online
        and v = 3 and s' = "push polled 3" and w' = online
        and ?v2.0 = 25 and ?s2.0 = "push polled 25" and ?w2.0 = online
        and c = 3 and ?c2.0 = 25 and ts = "[101, 102, 103]"]
    by (simp add: r)
qed

end
